theory Spec2Isabelle
  imports Main
begin

section \<open>JavaScript values used by the components\<close>

text \<open>
  The risk scores and the alert threshold of the dashboard are JavaScript numbers. The
  embedding keeps the integer-valued numbers and \<open>NaN\<close>; the rounding of IEEE doubles is
  outside it. A relational comparison with \<open>NaN\<close> on either side is false.
\<close>

datatype jsnum = NaN | Num int

fun js_gt :: "jsnum \<Rightarrow> jsnum \<Rightarrow> bool" where
  "js_gt (Num a) (Num b) = (b < a)"
| "js_gt _ _ = False"

text \<open>
  \<open>Number(s)\<close> on a string, for the part of \<open>StringToNumber\<close> that yields integers from
  decimal digits: the empty string is \<open>+0\<close>, an optionally signed run of decimal digits
  is its value. A double holds every integer up to \<open>2^53 = 9007199254740992\<close> exactly;
  a digit run above it is rounded by \<open>Number\<close> and is outside the embedding, as is every
  other string (fractions, exponents, white space, hexadecimal, \<open>Infinity\<close>, text that
  is not a number, for which \<open>Number\<close> gives a non-integer or \<open>NaN\<close>). For these the
  result \<open>None\<close> says that the embedding makes no statement about what is stored.
\<close>

definition digit_of :: "char \<Rightarrow> nat option" where
  "digit_of c =
     (let n = (of_char c :: nat) in if 48 \<le> n \<and> n \<le> 57 then Some (n - 48) else None)"

fun digits_val :: "string \<Rightarrow> nat \<Rightarrow> nat option" where
  "digits_val [] acc = Some acc"
| "digits_val (c # cs) acc =
     (case digit_of c of None \<Rightarrow> None | Some d \<Rightarrow> digits_val cs (10 * acc + d))"

definition exact_int :: "nat \<Rightarrow> nat option" where
  "exact_int n = (if n \<le> 9007199254740992 then Some n else None)"

definition Number_js :: "string \<Rightarrow> jsnum option" where
  "Number_js s =
     (case s of
        [] \<Rightarrow> Some (Num 0)
      | c # cs \<Rightarrow>
          if c = CHR ''-'' \<and> cs \<noteq> []
          then map_option (\<lambda>n. Num (- int n)) (Option.bind (digits_val cs 0) exact_int)
          else if c = CHR ''+'' \<and> cs \<noteq> []
          then map_option (\<lambda>n. Num (int n)) (Option.bind (digits_val cs 0) exact_int)
          else map_option (\<lambda>n. Num (int n)) (Option.bind (digits_val s 0) exact_int))"

section \<open>The maintenance panel (component MaintenanceStats)\<close>

text \<open>
  The component with the history chart and the threshold input (source part 002); the
  variant without them (source part 003) has the same effect and the same first three
  state variables.

  The response object of the maintenance prediction service. The history is a list of
  \<open>{date, riskScore}\<close> samples.
\<close>

record sample =
  date :: string
  sampleRiskScore :: int

record response =
  nextMaintenanceDate :: string
  riskScore :: int
  downtime :: string
  lastMaintenanceDate :: string
  history :: "sample list"

text \<open>
  The four state variables of the component, with the initial values of their
  \<open>useState\<close> calls: no data, loading, no error, threshold 70.
\<close>

record ms_state =
  maintenanceData :: "response option"
  loading :: bool
  error :: "string option"
  alertThreshold :: jsnum

definition ms_init :: ms_state where
  "ms_init = \<lparr>maintenanceData = None, loading = True, error = None, alertThreshold = Num 70\<rparr>"

text \<open>The response that the source writes out in place of the service call.\<close>

definition simulated_response :: response where
  "simulated_response =
     \<lparr>nextMaintenanceDate = ''2025-03-15'', riskScore = 80, downtime = ''15 hours'',
      lastMaintenanceDate = ''2024-12-01'',
      history =
        [\<lparr>date = ''2024-01-01'', sampleRiskScore = 30\<rparr>,
         \<lparr>date = ''2024-04-01'', sampleRiskScore = 45\<rparr>,
         \<lparr>date = ''2024-07-01'', sampleRiskScore = 60\<rparr>,
         \<lparr>date = ''2024-10-01'', sampleRiskScore = 75\<rparr>,
         \<lparr>date = ''2025-01-01'', sampleRiskScore = 80\<rparr>]\<rparr>"

text \<open>
  \<open>fetchMaintenanceData\<close>, the body of the effect that runs on mount and whenever
  \<open>equipmentId\<close> changes. The source marks its response as a stand-in for the service
  call, so the outcome of that call is the parameter: \<open>Inr\<close> a response (the \<open>try\<close>
  block stores it and clears \<open>loading\<close>), \<open>Inl\<close> an exception (the \<open>catch\<close> block sets
  the error text and clears \<open>loading\<close>). The function has no \<open>await\<close>: it runs to its
  end inside the effect. \<open>fetchMaintenanceData_simulated\<close> is the function exactly as
  written, with the literal response: the only call the source makes. The parameter
  serves to state what the \<open>catch\<close> block does.
\<close>

datatype js_exn = FetchRejected | DetectFailed | JsonRejected | TypeError

definition fetchMaintenanceData :: "js_exn + response \<Rightarrow> ms_state \<Rightarrow> ms_state" where
  "fetchMaintenanceData api st =
     (case api of
        Inr resp \<Rightarrow> st\<lparr>maintenanceData := Some resp, loading := False\<rparr>
      | Inl err \<Rightarrow> st\<lparr>error := Some ''Failed to fetch maintenance data'', loading := False\<rparr>)"

definition fetchMaintenanceData_simulated :: "ms_state \<Rightarrow> ms_state" where
  "fetchMaintenanceData_simulated = fetchMaintenanceData (Inr simulated_response)"

text \<open>
  The change handler of the threshold input,
  \<open>(e) => setAlertThreshold(Number(e.target.value))\<close>. The \<open>min\<close> and \<open>max\<close>
  attributes of the input are not consulted by the handler. The result is \<open>None\<close>
  exactly where \<open>Number_js\<close> is.
\<close>

definition setAlertThreshold :: "jsnum \<Rightarrow> ms_state \<Rightarrow> ms_state" where
  "setAlertThreshold v st = st\<lparr>alertThreshold := v\<rparr>"

definition onChangeThreshold :: "string \<Rightarrow> ms_state \<Rightarrow> ms_state option" where
  "onChangeThreshold v st = map_option (\<lambda>n. setAlertThreshold n st) (Number_js v)"

text \<open>
  The alert condition of the render function,
  \<open>maintenanceData.riskScore > alertThreshold\<close>, and the risk score the panel shows,
  \<open>maintenanceData.riskScore\<close> (absent while \<open>maintenanceData\<close> is \<open>null\<close>).
\<close>

definition alert_condition :: "response \<Rightarrow> jsnum \<Rightarrow> bool" where
  "alert_condition d thr = js_gt (Num (riskScore d)) thr"

definition currentRisk :: "ms_state \<Rightarrow> int option" where
  "currentRisk st = map_option riskScore (maintenanceData st)"

text \<open>
  What the component renders: the loading text, the error text (a non-empty string is
  truthy), or the statistics with or without the alert message. Reading a field of
  \<open>null\<close> data throws.
\<close>

datatype ms_view = LoadingView | ErrorView string | StatsView response bool | RenderThrows

definition render_ms :: "ms_state \<Rightarrow> ms_view" where
  "render_ms st =
     (if loading st then LoadingView
      else case error st of
        Some (c # cs) \<Rightarrow> ErrorView (c # cs)
      | _ \<Rightarrow>
          (case maintenanceData st of
             None \<Rightarrow> RenderThrows
           | Some d \<Rightarrow> StatsView d (alert_condition d (alertThreshold st))))"

text \<open>
  The decimal numeral of a natural number, as it is typed into the threshold input. It
  is used to describe inputs of the change handler, not by the handler.
\<close>

fun decimal :: "nat \<Rightarrow> string" where
  "decimal n =
     (if n < 10 then [char_of (48 + n)]
      else decimal (n div 10) @ [char_of (48 + n mod 10)])"

declare decimal.simps [simp del]

text \<open>
  The mounted panel: the prop \<open>equipmentId\<close>, the state variables, and whether the
  effect is due. The state variables belong to the component instance, not to an
  equipment id. On mount the component renders with the initial state and the effect
  is due. When the parent passes another id, the component renders again with the new
  prop and the state as it is, and the effect is due again (its dependency list is
  \<open>[equipmentId]\<close>). The effect runs after the render; it is \<open>fetchMaintenanceData\<close>
  with the literal response, exactly as written.
\<close>

record panel =
  equipmentId :: string
  hooks :: ms_state
  effectDue :: bool

definition mount :: "string \<Rightarrow> panel" where
  "mount i = \<lparr>equipmentId = i, hooks = ms_init, effectDue = True\<rparr>"

definition propChange :: "string \<Rightarrow> panel \<Rightarrow> panel" where
  "propChange i p = p\<lparr>equipmentId := i, effectDue := (effectDue p \<or> i \<noteq> equipmentId p)\<rparr>"

definition runEffect :: "panel \<Rightarrow> panel" where
  "runEffect p =
     (if effectDue p then p\<lparr>hooks := fetchMaintenanceData_simulated (hooks p), effectDue := False\<rparr>
      else p)"

text \<open>
  The panel mounted for equipment E1 after its effect, and the same panel when the
  parent has passed E2 and the effect for E2 has not run yet.
\<close>

definition panel_E1 :: panel where
  "panel_E1 = runEffect (mount ''E1'')"

definition panel_E2_before_fetch :: panel where
  "panel_E2_before_fetch = propChange ''E2'' panel_E1"

section \<open>The defect display (component DefectDisplay)\<close>

subsection \<open>Files, JSON and the outcome of a fetch\<close>

text \<open>
  A selected \<open>File\<close> object; \<open>None\<close> stands for \<open>null\<close> or \<open>undefined\<close> (nothing
  selected). Every \<open>File\<close> object is truthy, also one of size 0.
\<close>

record jsfile =
  fileName :: string
  fileSize :: nat

text \<open>Parsed JSON; numbers are restricted to integers.\<close>

datatype json =
  JNull | JBool bool | JNum int | JStr string | JArr "json list" | JObj "(string \<times> json) list"

fun truthy :: "json \<Rightarrow> bool" where
  "truthy JNull = False"
| "truthy (JBool b) = b"
| "truthy (JNum n) = (n \<noteq> 0)"
| "truthy (JStr s) = (s \<noteq> [])"
| "truthy (JArr xs) = True"
| "truthy (JObj kvs) = True"

text \<open>
  The truthiness of \<open>data.defect_detected\<close>. Reading a property of \<open>null\<close> throws a
  \<open>TypeError\<close>; a missing property, and any property of a primitive or an array under
  this name, is \<open>undefined\<close>, which is falsy. For a repeated key the parser keeps the
  last value.
\<close>

fun defect_detected :: "json \<Rightarrow> js_exn + bool" where
  "defect_detected JNull = Inl TypeError"
| "defect_detected (JObj kvs) =
     Inr (case map_of (rev kvs) ''defect_detected'' of None \<Rightarrow> False | Some v \<Rightarrow> truthy v)"
| "defect_detected _ = Inr False"

text \<open>
  How a call of \<open>fetch\<close> settles: the promise rejects (transport failure), or it resolves
  with a response that has the flag \<open>ok\<close> and a body that \<open>response.json()\<close> either
  fails to read or parses.
\<close>

datatype body = Unreadable | Parsed json

datatype fetch_outcome = NetworkFailure | HttpResponse bool body

text \<open>
  What the component does to its surroundings: the requests that are in flight (each
  with the value of the form field \<open>file\<close>), and the alerts, console errors and unhandled
  exceptions so far.
\<close>

datatype effect = Alert string | ConsoleError js_exn | Unhandled js_exn

record 'c world =
  ui :: 'c
  pending :: "jsfile option list"
  effects :: "effect list"

datatype event =
  SelectFile "jsfile option" | PreviewLoaded string | ClickUpload | Settle nat fetch_outcome

definition remove_nth :: "nat \<Rightarrow> 'a list \<Rightarrow> 'a list" where
  "remove_nth i xs = take i xs @ drop (Suc i) xs"

subsection \<open>The component of frontend/src/components/DefectDisplay.js\<close>

text \<open>The state variables \<open>file\<close> (here \<open>file_sel\<close>) and \<open>result\<close>.\<close>

record dd_basic =
  file_sel :: "jsfile option"
  result :: "string option"

definition dd_basic_init :: "dd_basic world" where
  "dd_basic_init = \<lparr>ui = \<lparr>file_sel = None, result = None\<rparr>, pending = [], effects = []\<rparr>"

definition handleFileChange_basic :: "jsfile option \<Rightarrow> dd_basic world \<Rightarrow> dd_basic world" where
  "handleFileChange_basic f w = w\<lparr>ui := (ui w)\<lparr>file_sel := f\<rparr>\<rparr>"

text \<open>
  \<open>handleSubmit\<close> up to its first \<open>await\<close>: the form data is built from the state
  variable \<open>file\<close>, whatever it holds, and the request is sent.
\<close>

definition handleSubmit_basic :: "dd_basic world \<Rightarrow> dd_basic world" where
  "handleSubmit_basic w = w\<lparr>pending := pending w @ [file_sel (ui w)]\<rparr>"

text \<open>
  \<open>handleSubmit\<close> from the first \<open>await\<close> on, when the fetch has settled. There is no
  \<open>try\<close> and no test of \<open>response.ok\<close>: an exception leaves the async function as an
  unhandled rejection, and the body of any response is parsed.
\<close>

definition resume_basic :: "fetch_outcome \<Rightarrow> dd_basic world \<Rightarrow> dd_basic world" where
  "resume_basic out w =
     (case out of
        NetworkFailure \<Rightarrow> w\<lparr>effects := effects w @ [Unhandled FetchRejected]\<rparr>
      | HttpResponse ok b \<Rightarrow>
          (case b of
             Unreadable \<Rightarrow> w\<lparr>effects := effects w @ [Unhandled JsonRejected]\<rparr>
           | Parsed data \<Rightarrow>
               (case defect_detected data of
                  Inl e \<Rightarrow> w\<lparr>effects := effects w @ [Unhandled e]\<rparr>
                | Inr v \<Rightarrow>
                    w\<lparr>ui := (ui w)\<lparr>result :=
                      Some (if v then ''Defect Detected'' else ''No Defect'')\<rparr>\<rparr>)))"

text \<open>
  One event of the page. The Upload button is always enabled. A fetch that settles is
  taken out of the requests in flight and the rest of its \<open>handleSubmit\<close> runs.
\<close>

fun step_basic :: "event \<Rightarrow> dd_basic world \<Rightarrow> dd_basic world" where
  "step_basic (SelectFile f) w = handleFileChange_basic f w"
| "step_basic (PreviewLoaded u) w = w"
| "step_basic ClickUpload w = handleSubmit_basic w"
| "step_basic (Settle i out) w =
     (if i < length (pending w) then resume_basic out (w\<lparr>pending := remove_nth i (pending w)\<rparr>)
      else w)"

definition run_basic :: "event list \<Rightarrow> dd_basic world \<Rightarrow> dd_basic world" where
  "run_basic es w = foldl (\<lambda>v e. step_basic e v) w es"

subsection \<open>The component with preview and loading flag\<close>

text \<open>The enhanced \<open>DefectDisplay\<close> (source part 004), which extends the state of the first.\<close>

record dd_state = dd_basic +
  imagePreview :: "string option"
  isLoading :: bool

definition dd_init :: "dd_state world" where
  "dd_init =
     \<lparr>ui = \<lparr>file_sel = None, result = None, imagePreview = None, isLoading = False\<rparr>,
      pending = [], effects = []\<rparr>"

text \<open>
  \<open>handleFileChange\<close> stores the selected file and starts reading it for the preview;
  \<open>readAsDataURL\<close> throws when nothing was selected. The preview arrives later
  (\<open>onloadend\<close>).
\<close>

definition handleFileChange :: "jsfile option \<Rightarrow> dd_state world \<Rightarrow> dd_state world" where
  "handleFileChange f w =
     (case f of
        None \<Rightarrow> w\<lparr>ui := (ui w)\<lparr>file_sel := None\<rparr>, effects := effects w @ [Unhandled TypeError]\<rparr>
      | Some x \<Rightarrow> w\<lparr>ui := (ui w)\<lparr>file_sel := Some x\<rparr>\<rparr>)"

definition onloadend :: "string \<Rightarrow> dd_state world \<Rightarrow> dd_state world" where
  "onloadend url w = w\<lparr>ui := (ui w)\<lparr>imagePreview := Some url\<rparr>\<rparr>"

text \<open>
  \<open>handleSubmit\<close> up to its first \<open>await\<close>: without a file it alerts and returns;
  otherwise it sets the loading flag and sends the request.
\<close>

definition handleSubmit :: "dd_state world \<Rightarrow> dd_state world" where
  "handleSubmit w =
     (case file_sel (ui w) of
        None \<Rightarrow> w\<lparr>effects := effects w @ [Alert ''Please select an image first.'']\<rparr>
      | Some x \<Rightarrow> w\<lparr>ui := (ui w)\<lparr>isLoading := True\<rparr>, pending := pending w @ [Some x]\<rparr>)"

text \<open>
  The \<open>try\<close> block after the fetch has settled: the text for \<open>setResult\<close>, or the
  exception that reaches the \<open>catch\<close> block.
\<close>

definition detect_try :: "fetch_outcome \<Rightarrow> js_exn + string" where
  "detect_try out =
     (case out of
        NetworkFailure \<Rightarrow> Inl FetchRejected
      | HttpResponse ok b \<Rightarrow>
          if \<not> ok then Inl DetectFailed
          else (case b of
                  Unreadable \<Rightarrow> Inl JsonRejected
                | Parsed data \<Rightarrow>
                    (case defect_detected data of
                       Inl e \<Rightarrow> Inl e
                     | Inr v \<Rightarrow> Inr (if v then ''Defect Detected'' else ''No Defect''))))"

text \<open>
  \<open>handleSubmit\<close> from the first \<open>await\<close> on: \<open>try\<close>, then \<open>catch\<close> (log the exception,
  set the fixed error text), then \<open>finally\<close> (clear the loading flag).
\<close>

definition resume :: "fetch_outcome \<Rightarrow> dd_state world \<Rightarrow> dd_state world" where
  "resume out w =
     (let w' = (case detect_try out of
                  Inr r \<Rightarrow> w\<lparr>ui := (ui w)\<lparr>result := Some r\<rparr>\<rparr>
                | Inl e \<Rightarrow>
                    w\<lparr>ui := (ui w)\<lparr>result := Some ''Error detecting defects. Please try again.''\<rparr>,
                      effects := effects w @ [ConsoleError e]\<rparr>)
      in w'\<lparr>ui := (ui w')\<lparr>isLoading := False\<rparr>\<rparr>)"

text \<open>
  One event of the page. The Upload button carries \<open>disabled={isLoading}\<close>: while the
  flag is set a click reaches no handler.
\<close>

fun step :: "event \<Rightarrow> dd_state world \<Rightarrow> dd_state world" where
  "step (SelectFile f) w = handleFileChange f w"
| "step (PreviewLoaded url) w = onloadend url w"
| "step ClickUpload w = (if isLoading (ui w) then w else handleSubmit w)"
| "step (Settle i out) w =
     (if i < length (pending w) then resume out (w\<lparr>pending := remove_nth i (pending w)\<rparr>)
      else w)"

definition run :: "event list \<Rightarrow> dd_state world \<Rightarrow> dd_state world" where
  "run es w = foldl (\<lambda>v e. step e v) w es"

subsection \<open>Concrete inputs\<close>

definition photo :: jsfile where
  "photo = \<lparr>fileName = ''part.png'', fileSize = 2048\<rparr>"

definition verdict :: "bool \<Rightarrow> fetch_outcome" where
  "verdict b = HttpResponse True (Parsed (JObj [(''defect_detected'', JBool b)]))"




text \<open>The enhanced component with one request in flight.\<close>

definition one_pending :: "dd_state world" where
  "one_pending = run [SelectFile (Some photo), ClickUpload] dd_init"

section \<open>Lemmas on numerals and on runs of events\<close>

lemma digits_val_append:
  "digits_val (xs @ ys) acc =
     (case digits_val xs acc of None \<Rightarrow> None | Some a \<Rightarrow> digits_val ys a)"
  by (induction xs arbitrary: acc) (auto split: option.splits)

lemma digit_of_char_of: "d < 10 \<Longrightarrow> digit_of (char_of (48 + d)) = Some d"
  by (simp add: digit_of_def Let_def)

lemma digit_of_sign: "digit_of CHR ''-'' = None" "digit_of CHR ''+'' = None"
  by (simp_all add: digit_of_def)

lemma decimal_nonempty: "decimal n \<noteq> []"
  by (subst decimal.simps) simp

lemma digits_val_decimal: "digits_val (decimal n) 0 = Some n"
proof (induction n rule: decimal.induct)
  case (1 n)
  show ?case
  proof (cases "n < 10")
    case True
    then show ?thesis by (subst decimal.simps) (simp add: digit_of_char_of)
  next
    case False
    with 1 have ih: "digits_val (decimal (n div 10)) 0 = Some (n div 10)" by simp
    have "digits_val (decimal n) 0 = digits_val [char_of (48 + n mod 10)] (n div 10)"
      using False by (subst decimal.simps) (simp add: digits_val_append ih)
    also have "\<dots> = Some (10 * (n div 10) + n mod 10)"
      by (simp add: digit_of_char_of)
    finally show ?thesis by simp
  qed
qed

lemma hd_decimal_digit: "digit_of (hd (decimal n)) \<noteq> None"
proof (induction n rule: decimal.induct)
  case (1 n)
  show ?case
  proof (cases "n < 10")
    case True
    then show ?thesis by (subst decimal.simps) (simp add: digit_of_char_of)
  next
    case False
    with 1 have "digit_of (hd (decimal (n div 10))) \<noteq> None" by simp
    then show ?thesis using False decimal_nonempty [of "n div 10"]
      by (subst decimal.simps) simp
  qed
qed

text \<open>
  On the numeral of a natural number in the exact range, \<open>Number_js\<close> gives that
  number.
\<close>

lemma Number_js_decimal:
  assumes "n \<le> 9007199254740992"
  shows "Number_js (decimal n) = Some (Num (int n))"
proof (cases "decimal n")
  case Nil
  then show ?thesis using decimal_nonempty by simp
next
  case (Cons c cs)
  then have "digit_of c \<noteq> None" using hd_decimal_digit [of n] by simp
  then have "c \<noteq> CHR ''-''" "c \<noteq> CHR ''+''" using digit_of_sign by auto
  then show ?thesis using Cons digits_val_decimal [of n] assms
    by (simp add: Number_js_def exact_int_def)
qed

text \<open>
  The enhanced component keeps the loading flag and the requests in flight in step: the
  flag is set exactly while a request is in flight, and there is never more than one.
\<close>

lemma step_keeps_flag:
  assumes "isLoading (ui w) = (pending w \<noteq> [])" and "length (pending w) \<le> 1"
  shows "isLoading (ui (step e w)) = (pending (step e w) \<noteq> []) \<and> length (pending (step e w)) \<le> 1"
proof (cases e)
  case (SelectFile f)
  then show ?thesis using assms by (cases f) (simp_all add: handleFileChange_def)
next
  case (PreviewLoaded url)
  then show ?thesis using assms by (simp add: onloadend_def)
next
  case ClickUpload
  then show ?thesis using assms
    by (cases "file_sel (ui w)") (auto simp: handleSubmit_def)
next
  case (Settle i out)
  show ?thesis
  proof (cases "i < length (pending w)")
    case True
    with assms(2) have "remove_nth i (pending w) = []"
      by (cases "pending w") (simp_all add: remove_nth_def)
    then show ?thesis using Settle True
      by (cases "detect_try out") (simp_all add: resume_def)
  next
    case False
    then show ?thesis using Settle assms by simp
  qed
qed

lemma run_snoc: "run (es @ [e]) w = step e (run es w)"
  by (simp add: run_def)

lemma run_keeps_flag:
  "isLoading (ui (run es dd_init)) = (pending (run es dd_init) \<noteq> [])
   \<and> length (pending (run es dd_init)) \<le> 1"
proof (induction es rule: rev_induct)
  case Nil
  show ?case by (simp add: run_def dd_init_def)
next
  case (snoc e es)
  then show ?case using step_keeps_flag [of "run es dd_init" e] by (simp add: run_snoc)
qed

text \<open>
  The guard of the enhanced \<open>handleSubmit\<close>: with no file selected it alerts and sends
  nothing.
\<close>

lemma handleSubmit_requires_file:
  "file_sel (ui w) = None \<Longrightarrow>
     handleSubmit w = w\<lparr>effects := effects w @ [Alert ''Please select an image first.'']\<rparr>"
  by (simp add: handleSubmit_def)

section \<open>The alert condition\<close>

text \<open>
  C1. The alert of the maintenance panel is strict greater-than: with data loaded and a
  numeric threshold, the alert message is rendered exactly when the risk score is
  strictly greater than the threshold; a score equal to the threshold gives no alert and
  a score of threshold + 1 gives one.
\<close>

theorem alert_strictly_greater:
  "render_ms \<lparr>maintenanceData = Some d, loading = False, error = None, alertThreshold = Num t\<rparr>
     = StatsView d (t < riskScore d)
   \<and> alert_condition d (Num t) = (t < riskScore d)
   \<and> \<not> alert_condition (d\<lparr>riskScore := t\<rparr>) (Num t)
   \<and> alert_condition (d\<lparr>riskScore := t + 1\<rparr>) (Num t)"
  by (simp add: render_ms_def alert_condition_def)

text \<open>
  C10. Clearing the threshold input gives the empty string; \<open>Number\<close> turns it into 0,
  the handler stores 0 as the threshold, and with threshold 0 the alert condition holds
  for every positive risk score.
\<close>

theorem cleared_input_sets_threshold_zero:
  "Number_js [] = Some (Num 0)
   \<and> onChangeThreshold [] st = Some (st\<lparr>alertThreshold := Num 0\<rparr>)
   \<and> (0 < riskScore d \<longrightarrow> alert_condition d (Num 0))"
  by (simp add: Number_js_def onChangeThreshold_def setAlertThreshold_def alert_condition_def)

theorem cleared_input_sets_threshold_zero_witness:
  "onChangeThreshold [] ms_init = Some (ms_init\<lparr>alertThreshold := Num 0\<rparr>)
   \<and> 0 < riskScore simulated_response
   \<and> alert_condition simulated_response (Num 0)"
proof -
  have pos: "0 < riskScore simulated_response" by (simp add: simulated_response_def)
  from cleared_input_sets_threshold_zero [of ms_init simulated_response] pos
  show ?thesis by simp
qed

section \<open>The threshold input\<close>

text \<open>
  C4, as the claim states it, fails: typing 150 stores 150 as the threshold, in place of
  the 70 stored before, and no error is set.
\<close>

theorem threshold_out_of_range_is_stored:
  "onChangeThreshold ''150'' ms_init = Some (ms_init\<lparr>alertThreshold := Num 150\<rparr>)
   \<and> alertThreshold ms_init = Num 70
   \<and> error (ms_init\<lparr>alertThreshold := Num 150\<rparr>) = None"
  by (simp add: onChangeThreshold_def setAlertThreshold_def Number_js_def exact_int_def
      digit_of_def ms_init_def)

text \<open>
  C4, amended. For every integer from 0 to 100, typing its numeral into the threshold
  input stores it as the threshold and changes nothing else. The handler has no
  validation error: whatever it stores, it leaves the error of the panel as it was.
\<close>

theorem threshold_in_range_is_stored:
  "(0 \<le> v \<and> v \<le> 100 \<longrightarrow>
      onChangeThreshold (decimal (nat v)) st = Some (st\<lparr>alertThreshold := Num v\<rparr>))
   \<and> (onChangeThreshold s st = Some st' \<longrightarrow> error st' = error st)"
  by (auto simp: onChangeThreshold_def setAlertThreshold_def Number_js_decimal)

theorem threshold_in_range_is_stored_witness:
  "(0::int) \<le> 55 \<and> (55::int) \<le> 100
   \<and> onChangeThreshold ''55'' ms_init = Some (ms_init\<lparr>alertThreshold := Num 55\<rparr>)
   \<and> error (ms_init\<lparr>alertThreshold := Num 55\<rparr>) = error ms_init"
proof -
  have d: "decimal (nat 55) = ''55''" by code_simp
  have "onChangeThreshold ''55'' ms_init = Some (ms_init\<lparr>alertThreshold := Num 55\<rparr>)"
    using threshold_in_range_is_stored [of 55 ms_init] d by simp
  then show ?thesis
    using threshold_in_range_is_stored [of 55 ms_init "''55''" "ms_init\<lparr>alertThreshold := Num 55\<rparr>"]
    by simp
qed

section \<open>The stored maintenance data\<close>

text \<open>
  C6, as the claim states it, fails: the panel is mounted for equipment E1 and its effect
  has stored the response; the parent then passes E2. Before the effect for E2 has run,
  the panel renders for E2 with the risk score 80 stored for E1, not with an absent one.
\<close>

theorem risk_of_previous_id_is_shown:
  "equipmentId panel_E2_before_fetch = ''E2''
   \<and> effectDue panel_E2_before_fetch
   \<and> currentRisk (hooks panel_E2_before_fetch) = Some 80
   \<and> render_ms (hooks panel_E2_before_fetch) = StatsView simulated_response True"
  by (simp add: panel_E2_before_fetch_def panel_E1_def propChange_def runEffect_def mount_def
      fetchMaintenanceData_simulated_def fetchMaintenanceData_def currentRisk_def render_ms_def
      alert_condition_def ms_init_def simulated_response_def)

text \<open>
  C6, amended. On mount, before the effect has run, the current risk is absent. Every
  run of the effect stores the literal response and makes its risk score the current
  risk. A change of the equipment id leaves the current risk as it was, so the score
  stored for the previous id stays the current risk until the effect has run again.
\<close>

theorem currentRisk_single_slot:
  "currentRisk (hooks (mount i)) = None
   \<and> (effectDue p \<longrightarrow>
        maintenanceData (hooks (runEffect p)) = Some simulated_response
        \<and> currentRisk (hooks (runEffect p)) = Some (riskScore simulated_response))
   \<and> currentRisk (hooks (propChange j p)) = currentRisk (hooks p)"
  by (simp add: mount_def runEffect_def propChange_def currentRisk_def ms_init_def
      fetchMaintenanceData_simulated_def fetchMaintenanceData_def)

theorem currentRisk_single_slot_witness:
  "effectDue (mount ''E1'')
   \<and> currentRisk (hooks (mount ''E1'')) = None
   \<and> currentRisk (hooks (runEffect (mount ''E1''))) = Some 80
   \<and> currentRisk (hooks (propChange ''E2'' (runEffect (mount ''E1''))))
       = currentRisk (hooks (runEffect (mount ''E1'')))"
proof -
  have d: "effectDue (mount ''E1'')" by (simp add: mount_def)
  have r: "riskScore simulated_response = 80" by (simp add: simulated_response_def)
  from currentRisk_single_slot [of "''E1''" "mount ''E1''" "''E2''"]
    currentRisk_single_slot [of "''E1''" "runEffect (mount ''E1'')" "''E2''"] d r
  show ?thesis by simp
qed

section \<open>Requests of the defect display\<close>

text \<open>
  C5. In frontend/src/components/DefectDisplay.js a click on Upload with no file
  selected sends a request whose form field holds no file, and nothing is reported.
\<close>

theorem basic_submit_without_file_sends_request:
  "file_sel (ui dd_basic_init) = None
   \<and> pending (step_basic ClickUpload dd_basic_init) = [None]
   \<and> effects (step_basic ClickUpload dd_basic_init) = []"
  by (simp add: dd_basic_init_def handleSubmit_basic_def)

text \<open>
  C7. In frontend/src/components/DefectDisplay.js the Upload button is never disabled:
  with one request in flight a second click begins a second request, so two requests of
  the widget are in flight at the same time.
\<close>

theorem basic_second_click_sends_second_request:
  "pending (run_basic [SelectFile (Some photo), ClickUpload] dd_basic_init) = [Some photo]
   \<and> pending (step_basic ClickUpload (run_basic [SelectFile (Some photo), ClickUpload] dd_basic_init))
       = [Some photo, Some photo]"
  by (simp add: run_basic_def dd_basic_init_def handleFileChange_basic_def handleSubmit_basic_def)

text \<open>
  C9. In the enhanced component the rest of \<open>handleSubmit\<close> clears the loading flag
  however the fetch settled, so the event that settles the request in flight leaves the
  flag clear; after any sequence of events the flag is set exactly when a request is in
  flight.
\<close>

theorem loading_flag_reset:
  "\<not> isLoading (ui (resume out w))
   \<and> (i < length (pending w) \<longrightarrow> \<not> isLoading (ui (step (Settle i out) w)))
   \<and> isLoading (ui (run es dd_init)) = (pending (run es dd_init) \<noteq> [])"
proof -
  have r: "\<not> isLoading (ui (resume out v))" for v
    by (cases "detect_try out") (simp_all add: resume_def)
  show ?thesis using r run_keeps_flag [of es] by simp
qed

theorem loading_flag_reset_witness:
  "(0::nat) < length (pending one_pending)
   \<and> isLoading (ui one_pending)
   \<and> \<not> isLoading (ui (step (Settle 0 NetworkFailure) one_pending))
   \<and> \<not> isLoading (ui (step (Settle 0 (HttpResponse False Unreadable)) one_pending))
   \<and> \<not> isLoading (ui (step (Settle 0 (verdict True)) one_pending))"
proof -
  have p: "pending one_pending = [Some photo]" and l: "isLoading (ui one_pending)"
    by (simp_all add: one_pending_def run_def dd_init_def handleFileChange_def handleSubmit_def)
  have n: "(0::nat) < length (pending one_pending)" using p by simp
  from n l
    loading_flag_reset [of NetworkFailure one_pending 0 "[]"]
    loading_flag_reset [of "HttpResponse False Unreadable" one_pending 0 "[]"]
    loading_flag_reset [of "verdict True" one_pending 0 "[]"]
  show ?thesis by blast
qed

section \<open>Responses that arrive late, and failures\<close>




text \<open>
  C8, as the claim states it, fails: in the enhanced component a transport failure and a
  response that is not ok leave the same component state, although the exceptions
  differ, so the state does not carry the kind of the error.
\<close>

theorem failed_state_without_error_kind:
  "ui (step (Settle 0 NetworkFailure) one_pending)
     = ui (step (Settle 0 (HttpResponse False Unreadable)) one_pending)
   \<and> detect_try NetworkFailure = Inl FetchRejected
   \<and> detect_try (HttpResponse False Unreadable) = Inl DetectFailed
   \<and> FetchRejected \<noteq> DetectFailed"
  by (simp add: one_pending_def run_def dd_init_def handleFileChange_def handleSubmit_def
      resume_def detect_try_def remove_nth_def)

text \<open>
  C8, amended. In the enhanced component every exception of the gateway call (transport
  failure, response not ok, unreadable body) is logged to the console and ends in the
  state with the fixed text \<open>Error detecting defects. Please try again.\<close> as result
  and the loading flag clear; in the maintenance panel every exception of the fetch
  ends in the state with the fixed error text and \<open>loading\<close> clear. The text is the
  same for every kind of error.
\<close>

theorem failure_sets_fixed_message:
  "detect_try NetworkFailure = Inl FetchRejected
   \<and> detect_try (HttpResponse False b) = Inl DetectFailed
   \<and> detect_try (HttpResponse True Unreadable) = Inl JsonRejected
   \<and> (detect_try out = Inl e \<longrightarrow>
        result (ui (resume out w)) = Some ''Error detecting defects. Please try again.''
        \<and> \<not> isLoading (ui (resume out w))
        \<and> effects (resume out w) = effects w @ [ConsoleError e])
   \<and> error (fetchMaintenanceData (Inl x) st) = Some ''Failed to fetch maintenance data''
   \<and> \<not> loading (fetchMaintenanceData (Inl x) st)"
  by (simp add: detect_try_def resume_def fetchMaintenanceData_def)

theorem failure_sets_fixed_message_witness:
  "detect_try (HttpResponse True (Parsed JNull)) = Inl TypeError
   \<and> result (ui (resume (HttpResponse True (Parsed JNull)) one_pending))
       = Some ''Error detecting defects. Please try again.''
   \<and> effects (resume (HttpResponse True (Parsed JNull)) one_pending) = [ConsoleError TypeError]"
proof -
  have t: "detect_try (HttpResponse True (Parsed JNull)) = Inl TypeError"
    by (simp add: detect_try_def)
  have e: "effects one_pending = []"
    by (simp add: one_pending_def run_def dd_init_def handleFileChange_def handleSubmit_def)
  from failure_sets_fixed_message [of Unreadable "HttpResponse True (Parsed JNull)" TypeError one_pending] t e
  show ?thesis by simp
qed

end
